theory Spec2Isabelle
  imports Main "HOL-Library.Word"
begin

section \<open>Data model of the import service\<close>

text \<open>
  The development embeds \<^verbatim>\<open>src/import/import.service.ts\<close> (class \<^verbatim>\<open>ImportService\<close>).
  The contracts and models of the management SDK are records holding the fields the service
  reads or writes; a field typed \<^verbatim>\<open>any\<close> in the source that the service only passes on is
  carried as a \<open>json\<close> value. A field that may be \<^verbatim>\<open>undefined\<close> is an \<open>option\<close>.
\<close>

datatype json =
    JNull
  | JBool bool
  | JNum int
  | JStr string
  | JArr "json list"
  | JObj "(string \<times> json) list"

text \<open>
  A reference object of the SDK: \<^verbatim>\<open>{ id?: string, codename?: string }\<close>. The export side
  adds \<^verbatim>\<open>codename\<close> to the references it captured, as the comment in
  \<^verbatim>\<open>importLanguagesAsync\<close> says.
\<close>

record reference_object =
  ref_id :: "string option"
  ref_codename :: "string option"

record language_contract =
  language_id :: string
  language_name :: string
  language_codename :: string
  language_external_id :: "string option"
  language_is_active :: bool
  language_fallback_language :: "reference_object option"

record asset_contract =
  asset_id :: string
  asset_file_name :: string
  asset_title :: "string option"
  asset_type :: string
  asset_descriptions :: json
  asset_external_id :: "string option"

record content_type_contract =
  content_type_id :: string
  content_type_name :: string
  content_type_codename :: string
  content_type_elements :: json

record content_type_snippet_contract =
  snippet_id :: string
  snippet_name :: string
  snippet_codename :: string
  snippet_elements :: json

record taxonomy_contract =
  taxonomy_id :: string
  taxonomy_name :: string
  taxonomy_codename :: string
  taxonomy_terms :: json

record content_item_contract =
  content_item_id :: string
  content_item_name :: string
  content_item_codename :: string
  content_item_type :: reference_object
  content_item_external_id :: "string option"

record language_variant_contract =
  lv_item :: reference_object
  lv_language :: reference_object
  lv_workflow_step :: reference_object
  lv_elements :: json

text \<open>\<^verbatim>\<open>IBinaryFile\<close>: the asset a binary belongs to and its raw bytes.\<close>

record binary_file =
  bf_asset :: asset_contract
  bf_binaryData :: "8 word list"

subsection \<open>What the remote client returns\<close>

record language_model =
  lm_id :: string
  lm_name :: string
  lm_codename :: string

record file_reference =
  fr_id :: string
  fr_type :: string

record asset_model =
  am_id :: string
  am_fileName :: string

record content_type_model =
  ctm_id :: string
  ctm_name :: string

record content_type_snippet_model =
  csm_id :: string
  csm_name :: string

record taxonomy_model =
  tm_id :: string
  tm_name :: string

record content_item_model =
  cim_id :: string
  cim_name :: string

record language_variant_model =
  lvm_item :: reference_object
  lvm_language :: reference_object
  lvm_elements :: json

subsection \<open>What the service sends\<close>

record language_data =
  ld_codename :: string
  ld_name :: string
  ld_external_id :: "string option"
  ld_fallback_language :: reference_object
  ld_is_active :: bool

record upload_data =
  ud_binaryData :: "8 word list"
  ud_contentType :: string
  ud_filename :: string

record asset_data =
  ad_descriptions :: json
  ad_file_reference :: file_reference
  ad_title :: "string option"
  ad_external_id :: "string option"

record content_item_data =
  cid_name :: string
  cid_type :: reference_object
  cid_codename :: string
  cid_external_id :: "string option"

text \<open>
  One constructor per query the service builds on the client. The language variant is sent by
  \<^verbatim>\<open>upsertLanguageVariant().byItemCodename(i).byLanguageCodename(l).withElements(e)\<close>:
  the two codenames address it and the elements are its body.
\<close>

datatype request =
    AddLanguage language_data
  | UploadBinaryFile upload_data
  | AddAsset asset_data
  | AddContentType content_type_contract
  | AddContentTypeSnippet content_type_snippet_contract
  | AddContentItem content_item_data
  | AddTaxonomy taxonomy_contract
  | UpsertLanguageVariant string string json

subsection \<open>Results, errors and effects\<close>

datatype valid_import_contract =
    LanguageC language_contract
  | AssetC asset_contract
  | ContentTypeC content_type_contract
  | ContentTypeSnippetC content_type_snippet_contract
  | TaxonomyC taxonomy_contract
  | ContentItemC content_item_contract
  | LanguageVariantC language_variant_contract

datatype valid_import_model =
    LanguageM language_model
  | AssetM asset_model
  | ContentTypeM content_type_model
  | ContentTypeSnippetM content_type_snippet_model
  | TaxonomyM taxonomy_model
  | ContentItemM content_item_model
  | LanguageVariantM language_variant_model

text \<open>\<^verbatim>\<open>IImportItemResult\<close>.\<close>

record import_item_result =
  imported :: valid_import_model
  original :: valid_import_contract
  importId :: "string option"
  originalId :: "string option"

text \<open>
  A thrown value: an \<^verbatim>\<open>Error\<close> made by the service, the \<^verbatim>\<open>TypeError\<close> of reading a
  property of \<^verbatim>\<open>undefined\<close>, or the value a rejected client promise or a throwing callback
  carries: \<^verbatim>\<open>undefined\<close>, or any other value, kept as the string \<^verbatim>\<open>String(value)\<close>
  gives.
\<close>

datatype thrown =
    JsError string
  | JsTypeError string
  | Rejected string
  | JsUndefined

text \<open>The argument of the progress callback \<^verbatim>\<open>config.processItem\<close>.\<close>

record processed_item =
  pi_data :: valid_import_model
  pi_title :: string
  pi_type :: string

text \<open>
  The observable effects, in the order they happen: a query sent to the remote instance,
  a call of the progress callback, a line written by \<^verbatim>\<open>console.log\<close>.
\<close>

datatype event =
    Remote request
  | Callback processed_item
  | ConsoleLog thrown

text \<open>
  \<^verbatim>\<open>IImportConfig\<close>, without the credentials the constructor hands to the client.
  \<^verbatim>\<open>skip\<close> and \<^verbatim>\<open>skip.languages\<close> are optional; the callback either returns
  (\<open>None\<close>) or throws a value.
\<close>

record skip_config =
  skip_languages :: "bool option"

record import_config =
  config_skip :: "skip_config option"
  config_workflowIdForImportedItems :: string
  config_processItem :: "(processed_item \<Rightarrow> thrown option) option"

text \<open>
  \<^verbatim>\<open>IManagementClient\<close>: each method gets the effects that happened before the call and
  the data sent, and its promise is rejected (\<open>Inl\<close>) or resolved with \<^verbatim>\<open>response.data\<close>
  (\<open>Inr\<close>). The history argument lets the remote instance answer from its state.
\<close>

record management_client =
  addLanguage :: "event list \<Rightarrow> language_data \<Rightarrow> thrown + language_model"
  uploadBinaryFile :: "event list \<Rightarrow> upload_data \<Rightarrow> thrown + file_reference"
  addAsset :: "event list \<Rightarrow> asset_data \<Rightarrow> thrown + asset_model"
  addContentType :: "event list \<Rightarrow> content_type_contract \<Rightarrow> thrown + content_type_model"
  addContentTypeSnippet ::
    "event list \<Rightarrow> content_type_snippet_contract \<Rightarrow> thrown + content_type_snippet_model"
  addContentItem :: "event list \<Rightarrow> content_item_data \<Rightarrow> thrown + content_item_model"
  addTaxonomy :: "event list \<Rightarrow> taxonomy_contract \<Rightarrow> thrown + taxonomy_model"
  upsertLanguageVariant ::
    "event list \<Rightarrow> string \<Rightarrow> string \<Rightarrow> json \<Rightarrow> thrown + language_variant_model"

text \<open>
  The service object: its configuration, its client, and the helper
  \<^verbatim>\<open>idTranslateHelper.replaceIdReferencesWithNewId\<close> it imports from \<^verbatim>\<open>../core\<close>.
  The helper belongs to another module and the service is treated for every helper, so it
  is a parameter: it edits the variant it is given in place, reading the results so far, and
  either returns or throws; the model has it return the variant as it left it.
\<close>

record import_service =
  config :: import_config
  client :: management_client
  replaceIdReferencesWithNewId ::
    "language_variant_contract \<Rightarrow> import_item_result list \<Rightarrow> thrown option \<times> language_variant_contract"

text \<open>
  \<^verbatim>\<open>IPreparedImportItem\<close>: the kind tag \<^verbatim>\<open>type\<close> and the payload \<^verbatim>\<open>item\<close>. A tag of
  \<^verbatim>\<open>ItemType\<close> comes with the contract of that kind; \<open>OtherItem\<close> is an item whose tag is
  none of the seven, with whatever it carries.
\<close>

datatype prepared_import_item =
    ContentTypeItem content_type_contract
  | TaxonomyItem taxonomy_contract
  | ContentTypeSnippetItem content_type_snippet_contract
  | ContentItemItem content_item_contract
  | LanguageVariantItem language_variant_contract
  | LanguageItem language_contract
  | AssetItem asset_contract
  | OtherItem string json

fun item_type :: "prepared_import_item \<Rightarrow> string" where
  "item_type (ContentTypeItem _) = ''contentType''"
| "item_type (TaxonomyItem _) = ''taxonomy''"
| "item_type (ContentTypeSnippetItem _) = ''contentTypeSnippet''"
| "item_type (ContentItemItem _) = ''contentItem''"
| "item_type (LanguageVariantItem _) = ''languageVariant''"
| "item_type (LanguageItem _) = ''language''"
| "item_type (AssetItem _) = ''asset''"
| "item_type (OtherItem t _) = t"

definition supported_types :: "string list" where
  "supported_types =
     [''contentType'', ''taxonomy'', ''contentTypeSnippet'', ''contentItem'',
      ''languageVariant'', ''language'', ''asset'']"

section \<open>The service\<close>

subsection \<open>JavaScript helpers\<close>

text \<open>
  \<^verbatim>\<open>!v\<close> on a value that is a string or \<^verbatim>\<open>undefined\<close>: \<^verbatim>\<open>undefined\<close> and the empty
  string are falsy. \<open>truthy\<close> gives the string when the test passes.
\<close>

fun truthy :: "string option \<Rightarrow> string option" where
  "truthy None = None"
| "truthy (Some s) = (if s = [] then None else Some s)"

definition quoted :: "string \<Rightarrow> string" where
  "quoted s = CHR 0x27 # s @ [CHR 0x27]"

text \<open>\<^verbatim>\<open>String(value)\<close> of a thrown value, as \<^verbatim>\<open>Error.prototype.toString\<close> builds it.\<close>

fun js_to_string :: "thrown \<Rightarrow> string" where
  "js_to_string (JsError m) = (if m = [] then ''Error'' else ''Error: '' @ m)"
| "js_to_string (JsTypeError m) = (if m = [] then ''TypeError'' else ''TypeError: '' @ m)"
| "js_to_string (Rejected s) = s"
| "js_to_string JsUndefined = ''undefined''"

text \<open>
  \<^verbatim>\<open>Error(value)\<close>: the message is \<^verbatim>\<open>String(value)\<close>, and empty when the value is
  \<^verbatim>\<open>undefined\<close>.
\<close>

fun new_Error :: "thrown \<Rightarrow> thrown" where
  "new_Error JsUndefined = JsError []"
| "new_Error error = JsError (js_to_string error)"

fun remote_calls :: "event list \<Rightarrow> request list" where
  "remote_calls [] = []"
| "remote_calls (Remote r # evs) = r # remote_calls evs"
| "remote_calls (_ # evs) = remote_calls evs"

fun callbacks :: "event list \<Rightarrow> processed_item list" where
  "callbacks [] = []"
| "callbacks (Callback p # evs) = p # callbacks evs"
| "callbacks (_ # evs) = callbacks evs"

subsection \<open>handleImportError, processItem and the promise chain\<close>

text \<open>
  \<^verbatim>\<open>handleImportError\<close> logs the error and throws \<^verbatim>\<open>Error(error)\<close>; it never returns.
  The model gives the value thrown and the effects.
\<close>

definition handleImportError :: "thrown \<Rightarrow> thrown \<times> event list" where
  "handleImportError error = (new_Error error, [ConsoleLog error])"

text \<open>
  \<^verbatim>\<open>processItem\<close>: nothing without a configured callback; otherwise one call of it, which
  may throw.
\<close>

definition processItem ::
  "import_config \<Rightarrow> string \<Rightarrow> string \<Rightarrow> valid_import_model \<Rightarrow> thrown option \<times> event list" where
  "processItem cfg title type data =
     (case config_processItem cfg of
        None \<Rightarrow> (None, [])
      | Some f \<Rightarrow>
          (let arg = \<lparr>pi_data = data, pi_title = title, pi_type = type\<rparr>
           in (f arg, [Callback arg])))"

text \<open>
  The chain every importer hangs on its create call:
  \<^verbatim>\<open>.then(response => { importedItems.push(r); this.processItem(title, type, response.data) })
  .catch(error => this.handleImportError(error))\<close>.
  The \<^verbatim>\<open>catch\<close> follows the \<^verbatim>\<open>then\<close>, so it handles a rejected call and a throwing
  callback alike. \<open>mk\<close> builds the pushed result from the response.
\<close>

definition then_catch ::
  "import_config \<Rightarrow> thrown + 'r \<Rightarrow> ('r \<Rightarrow> import_item_result) \<Rightarrow> ('r \<Rightarrow> string) \<Rightarrow> string
     \<Rightarrow> (thrown + import_item_result) \<times> event list" where
  "then_catch cfg promise mk title type =
     (case promise of
        Inl error \<Rightarrow> (case handleImportError error of (e, evs) \<Rightarrow> (Inl e, evs))
      | Inr response \<Rightarrow>
          (case processItem cfg (title response) type (imported (mk response)) of
             (None, evs) \<Rightarrow> (Inr (mk response), evs)
           | (Some error, evs) \<Rightarrow>
               (case handleImportError error of (e, evs') \<Rightarrow> (Inl e, evs @ evs'))))"

text \<open>
  \<^verbatim>\<open>for (const x of xs) { ... importedItems.push(r) ... } return importedItems\<close>, the loop
  of the six importers that leave their payloads alone. The body gets the effects so far and
  gives the pushed result and its own effects; a throw ends the loop.
\<close>

fun for_of ::
  "(event list \<Rightarrow> 'a \<Rightarrow> (thrown + import_item_result) \<times> event list) \<Rightarrow> event list \<Rightarrow> 'a list
     \<Rightarrow> import_item_result list \<Rightarrow> (thrown + import_item_result list) \<times> event list" where
  "for_of body h [] importedItems = (Inr importedItems, [])"
| "for_of body h (x # xs) importedItems =
     (case body h x of
        (Inl e, evs) \<Rightarrow> (Inl e, evs)
      | (Inr r, evs) \<Rightarrow>
          (case for_of body (h @ evs) xs (importedItems @ [r]) of
             (res, evs') \<Rightarrow> (res, evs @ evs')))"

subsection \<open>The per-kind importers\<close>

definition no_fallback_id :: string where
  "no_fallback_id = ''00000000-0000-0000-0000-000000000000''"

text \<open>
  The body of the loop of \<^verbatim>\<open>importLanguagesAsync\<close>. Reading \<^verbatim>\<open>.codename\<close> of an
  \<^verbatim>\<open>undefined\<close> fallback language is a \<^verbatim>\<open>TypeError\<close>; the text of its message is the
  engine's.
\<close>

definition importLanguage ::
  "import_service \<Rightarrow> event list \<Rightarrow> language_contract
     \<Rightarrow> (thrown + import_item_result) \<times> event list" where
  "importLanguage svc h language =
     (case language_fallback_language language of
        None \<Rightarrow> (Inl (JsTypeError ''Cannot read properties of undefined (reading codename)''), [])
      | Some fallback_language \<Rightarrow>
          (case truthy (ref_codename fallback_language) of
             None \<Rightarrow>
               (Inl (JsError (''Langauge '' @ quoted (language_name language)
                                @ '' has unset codename'')), [])
           | Some fallbackLanguageCodename \<Rightarrow>
               (let data =
                      \<lparr>ld_codename = language_codename language,
                       ld_name = language_name language,
                       ld_external_id = language_external_id language,
                       ld_fallback_language =
                         (if language_codename language = fallbackLanguageCodename
                          then \<lparr>ref_id = Some no_fallback_id, ref_codename = None\<rparr>
                          else \<lparr>ref_id = None, ref_codename = Some fallbackLanguageCodename\<rparr>),
                       ld_is_active = language_is_active language\<rparr>
                in (case then_catch (config svc) (addLanguage (client svc) h data)
                           (\<lambda>response.
                              \<lparr>imported = LanguageM response,
                               original = LanguageC language,
                               importId = Some (lm_id response),
                               originalId = Some (language_id language)\<rparr>)
                           lm_name ''language'' of
                      (res, evs) \<Rightarrow> (res, Remote (AddLanguage data) # evs)))))"

definition importLanguagesAsync ::
  "import_service \<Rightarrow> event list \<Rightarrow> language_contract list
     \<Rightarrow> (thrown + import_item_result list) \<times> event list" where
  "importLanguagesAsync svc h languages = for_of (importLanguage svc) h languages []"

text \<open>
  The body of the loop of \<^verbatim>\<open>importAssetsAsync\<close>. \<^verbatim>\<open>Array.prototype.find\<close> gives the
  first binary whose asset has the id. The upload is awaited with no \<^verbatim>\<open>catch\<close>: its
  rejection leaves the importer as it is.
\<close>

definition importAsset ::
  "import_service \<Rightarrow> binary_file list \<Rightarrow> event list \<Rightarrow> asset_contract
     \<Rightarrow> (thrown + import_item_result) \<times> event list" where
  "importAsset svc binaryFiles h asset =
     (case find (\<lambda>m. asset_id (bf_asset m) = asset_id asset) binaryFiles of
        None \<Rightarrow>
          (Inl (JsError (''Could not find binary file for asset with id ''
                           @ quoted (asset_id asset))), [])
      | Some binaryFile \<Rightarrow>
          (let upload =
                 \<lparr>ud_binaryData = bf_binaryData binaryFile,
                  ud_contentType = asset_type asset,
                  ud_filename = asset_file_name asset\<rparr>
           in (case uploadBinaryFile (client svc) h upload of
                 Inl error \<Rightarrow> (Inl error, [Remote (UploadBinaryFile upload)])
               | Inr uploadedBinaryFile \<Rightarrow>
                   (let data =
                          \<lparr>ad_descriptions = asset_descriptions asset,
                           ad_file_reference = uploadedBinaryFile,
                           ad_title = asset_title asset,
                           ad_external_id = asset_external_id asset\<rparr>
                    in (case then_catch (config svc)
                               (addAsset (client svc) (h @ [Remote (UploadBinaryFile upload)]) data)
                               (\<lambda>response.
                                  \<lparr>imported = AssetM response,
                                   original = AssetC asset,
                                   importId = Some (am_id response),
                                   originalId = Some (asset_id asset)\<rparr>)
                               am_fileName ''asset'' of
                          (res, evs) \<Rightarrow>
                            (res, Remote (UploadBinaryFile upload) # Remote (AddAsset data) # evs))))))"

definition importAssetsAsync ::
  "import_service \<Rightarrow> event list \<Rightarrow> asset_contract list \<Rightarrow> binary_file list
     \<Rightarrow> (thrown + import_item_result list) \<times> event list" where
  "importAssetsAsync svc h assets binaryFiles = for_of (importAsset svc binaryFiles) h assets []"

definition importContentType ::
  "import_service \<Rightarrow> event list \<Rightarrow> content_type_contract
     \<Rightarrow> (thrown + import_item_result) \<times> event list" where
  "importContentType svc h contentType =
     (case then_catch (config svc) (addContentType (client svc) h contentType)
             (\<lambda>response.
                \<lparr>imported = ContentTypeM response,
                 original = ContentTypeC contentType,
                 importId = Some (ctm_id response),
                 originalId = Some (content_type_id contentType)\<rparr>)
             ctm_name ''contentType'' of
        (res, evs) \<Rightarrow> (res, Remote (AddContentType contentType) # evs))"

definition importContentTypesAsync ::
  "import_service \<Rightarrow> event list \<Rightarrow> content_type_contract list
     \<Rightarrow> (thrown + import_item_result list) \<times> event list" where
  "importContentTypesAsync svc h contentTypes = for_of (importContentType svc) h contentTypes []"

definition importContentItem ::
  "import_service \<Rightarrow> event list \<Rightarrow> content_item_contract
     \<Rightarrow> (thrown + import_item_result) \<times> event list" where
  "importContentItem svc h contentItem =
     (case truthy (ref_codename (content_item_type contentItem)) of
        None \<Rightarrow>
          (Inl (JsError (''Content item '' @ quoted (content_item_codename contentItem)
                           @ '' has unset type codename'')), [])
      | Some typeCodename \<Rightarrow>
          (let data =
                 \<lparr>cid_name = content_item_name contentItem,
                  cid_type = \<lparr>ref_id = None, ref_codename = Some typeCodename\<rparr>,
                  cid_codename = content_item_codename contentItem,
                  cid_external_id = content_item_external_id contentItem\<rparr>
           in (case then_catch (config svc) (addContentItem (client svc) h data)
                      (\<lambda>response.
                         \<lparr>imported = ContentItemM response,
                          original = ContentItemC contentItem,
                          importId = Some (cim_id response),
                          originalId = Some (content_item_id contentItem)\<rparr>)
                      cim_name ''contentItem'' of
                 (res, evs) \<Rightarrow> (res, Remote (AddContentItem data) # evs))))"

definition importContentItemAsync ::
  "import_service \<Rightarrow> event list \<Rightarrow> content_item_contract list
     \<Rightarrow> (thrown + import_item_result list) \<times> event list" where
  "importContentItemAsync svc h contentItems = for_of (importContentItem svc) h contentItems []"

definition importContentTypeSnippet ::
  "import_service \<Rightarrow> event list \<Rightarrow> content_type_snippet_contract
     \<Rightarrow> (thrown + import_item_result) \<times> event list" where
  "importContentTypeSnippet svc h contentTypeSnippet =
     (case then_catch (config svc) (addContentTypeSnippet (client svc) h contentTypeSnippet)
             (\<lambda>response.
                \<lparr>imported = ContentTypeSnippetM response,
                 original = ContentTypeSnippetC contentTypeSnippet,
                 importId = Some (csm_id response),
                 originalId = Some (snippet_id contentTypeSnippet)\<rparr>)
             csm_name ''contentTypeSnippet'' of
        (res, evs) \<Rightarrow> (res, Remote (AddContentTypeSnippet contentTypeSnippet) # evs))"

definition importContentTypeSnippetsAsync ::
  "import_service \<Rightarrow> event list \<Rightarrow> content_type_snippet_contract list
     \<Rightarrow> (thrown + import_item_result list) \<times> event list" where
  "importContentTypeSnippetsAsync svc h contentTypeSnippets =
     for_of (importContentTypeSnippet svc) h contentTypeSnippets []"

definition importTaxonomy ::
  "import_service \<Rightarrow> event list \<Rightarrow> taxonomy_contract
     \<Rightarrow> (thrown + import_item_result) \<times> event list" where
  "importTaxonomy svc h taxonomy =
     (case then_catch (config svc) (addTaxonomy (client svc) h taxonomy)
             (\<lambda>response.
                \<lparr>imported = TaxonomyM response,
                 original = TaxonomyC taxonomy,
                 importId = Some (tm_id response),
                 originalId = Some (taxonomy_id taxonomy)\<rparr>)
             tm_name ''taxonomy'' of
        (res, evs) \<Rightarrow> (res, Remote (AddTaxonomy taxonomy) # evs))"

definition importTaxonomiesAsync ::
  "import_service \<Rightarrow> event list \<Rightarrow> taxonomy_contract list
     \<Rightarrow> (thrown + import_item_result list) \<times> event list" where
  "importTaxonomiesAsync svc h taxonomies = for_of (importTaxonomy svc) h taxonomies []"

text \<open>
  The body of the loop of \<^verbatim>\<open>importLanguageVariantsAsync\<close>. The two codenames are read
  into constants first. The helper and the assignment to \<^verbatim>\<open>workflow_step.id\<close> then write
  to the variant object the caller passed, so the body also gives the variant as it leaves it.
  The pushed result holds that same object as \<^verbatim>\<open>original\<close>, and its \<^verbatim>\<open>originalId\<close> is
  read from it after the edits.
\<close>

definition importLanguageVariant ::
  "import_service \<Rightarrow> import_item_result list \<Rightarrow> event list \<Rightarrow> language_variant_contract
     \<Rightarrow> (thrown + import_item_result) \<times> event list \<times> language_variant_contract" where
  "importLanguageVariant svc currentItems h languageVariant =
     (case truthy (ref_codename (lv_item languageVariant)) of
        None \<Rightarrow> (Inl (JsError ''Missing item codename for item''), [], languageVariant)
      | Some itemCodename \<Rightarrow>
          (case truthy (ref_codename (lv_language languageVariant)) of
             None \<Rightarrow> (Inl (JsError ''Missing language codename for item''), [], languageVariant)
           | Some languageCodename \<Rightarrow>
               (case replaceIdReferencesWithNewId svc languageVariant currentItems of
                  (Some error, rewritten) \<Rightarrow> (Inl error, [], rewritten)
                | (None, rewritten) \<Rightarrow>
                    (let edited =
                           rewritten\<lparr>lv_workflow_step :=
                             (lv_workflow_step rewritten)
                               \<lparr>ref_id := Some (config_workflowIdForImportedItems (config svc))\<rparr>\<rparr>
                     in (case then_catch (config svc)
                                (upsertLanguageVariant (client svc) h itemCodename languageCodename
                                   (lv_elements edited))
                                (\<lambda>response.
                                   \<lparr>imported = LanguageVariantM response,
                                    original = LanguageVariantC edited,
                                    importId = ref_id (lvm_item response),
                                    originalId = ref_id (lv_item edited)\<rparr>)
                                (\<lambda>response. itemCodename @ '' ('' @ languageCodename @ '')'')
                                ''languageVariant'' of
                           (res, evs) \<Rightarrow>
                             (res,
                              Remote (UpsertLanguageVariant itemCodename languageCodename
                                        (lv_elements edited)) # evs,
                              edited))))))"

fun importLanguageVariantsLoop ::
  "import_service \<Rightarrow> import_item_result list \<Rightarrow> event list \<Rightarrow> language_variant_contract list
     \<Rightarrow> import_item_result list
     \<Rightarrow> (thrown + import_item_result list) \<times> event list \<times> language_variant_contract list" where
  "importLanguageVariantsLoop svc currentItems h [] importedItems = (Inr importedItems, [], [])"
| "importLanguageVariantsLoop svc currentItems h (languageVariant # rest) importedItems =
     (case importLanguageVariant svc currentItems h languageVariant of
        (Inl e, evs, edited) \<Rightarrow> (Inl e, evs, edited # rest)
      | (Inr r, evs, edited) \<Rightarrow>
          (case importLanguageVariantsLoop svc currentItems (h @ evs) rest (importedItems @ [r]) of
             (res, evs', rest') \<Rightarrow> (res, evs @ evs', edited # rest')))"

definition importLanguageVariantsAsync ::
  "import_service \<Rightarrow> event list \<Rightarrow> language_variant_contract list \<Rightarrow> import_item_result list
     \<Rightarrow> (thrown + import_item_result list) \<times> event list \<times> language_variant_contract list" where
  "importLanguageVariantsAsync svc h languageVariants currentItems =
     importLanguageVariantsLoop svc currentItems h languageVariants []"

subsection \<open>importItemAsync and importAsync\<close>

text \<open>
  \<^verbatim>\<open>importItemAsync\<close> routes one item by its tag, in the order of the source's
  \<^verbatim>\<open>if / else if\<close> chain, and hands each importer the one-element array
  \<^verbatim>\<open>[item.item]\<close>. It gives the results or the value thrown, the effects, and the item as
  the call leaves it.
\<close>

definition skips_languages :: "import_config \<Rightarrow> bool" where
  "skips_languages cfg =
     (case config_skip cfg of
        None \<Rightarrow> False
      | Some skip \<Rightarrow> skip_languages skip = Some True)"

fun importItemAsync ::
  "import_service \<Rightarrow> event list \<Rightarrow> prepared_import_item \<Rightarrow> binary_file list
     \<Rightarrow> import_item_result list
     \<Rightarrow> (thrown + import_item_result list) \<times> event list \<times> prepared_import_item" where
  "importItemAsync svc h (ContentTypeItem c) binaryFiles currentItems =
     (case importContentTypesAsync svc h [c] of (res, evs) \<Rightarrow> (res, evs, ContentTypeItem c))"
| "importItemAsync svc h (TaxonomyItem t) binaryFiles currentItems =
     (case importTaxonomiesAsync svc h [t] of (res, evs) \<Rightarrow> (res, evs, TaxonomyItem t))"
| "importItemAsync svc h (ContentTypeSnippetItem s) binaryFiles currentItems =
     (case importContentTypeSnippetsAsync svc h [s] of
        (res, evs) \<Rightarrow> (res, evs, ContentTypeSnippetItem s))"
| "importItemAsync svc h (ContentItemItem c) binaryFiles currentItems =
     (case importContentItemAsync svc h [c] of (res, evs) \<Rightarrow> (res, evs, ContentItemItem c))"
| "importItemAsync svc h (LanguageVariantItem v) binaryFiles currentItems =
     (case importLanguageVariantsAsync svc h [v] currentItems of
        (res, evs, vs) \<Rightarrow>
          (res, evs, (case vs of [] \<Rightarrow> LanguageVariantItem v | v' # _ \<Rightarrow> LanguageVariantItem v')))"
| "importItemAsync svc h (LanguageItem l) binaryFiles currentItems =
     (if skips_languages (config svc) then (Inr [], [], LanguageItem l)
      else (case importLanguagesAsync svc h [l] of (res, evs) \<Rightarrow> (res, evs, LanguageItem l)))"
| "importItemAsync svc h (AssetItem a) binaryFiles currentItems =
     (case importAssetsAsync svc h [a] binaryFiles of (res, evs) \<Rightarrow> (res, evs, AssetItem a))"
| "importItemAsync svc h (OtherItem t payload) binaryFiles currentItems =
     (Inl (JsError (''Not supported import data type '' @ quoted t)), [], OtherItem t payload)"

text \<open>
  The state of the loop of \<^verbatim>\<open>importAsync\<close>: the local array \<^verbatim>\<open>importedItems\<close> and the
  effects so far.
\<close>

record run_state =
  importedItems :: "import_item_result list"
  effects :: "event list"

text \<open>
  \<^verbatim>\<open>for (const item of importData.orderedImportItems) { const importedItem = await
  this.importItemAsync(item, importData.binaryFiles, importedItems);
  importedItems.push(...importedItem); }\<close>
  A throw of \<^verbatim>\<open>importItemAsync\<close> leaves the loop before the push. The loop gives the value
  thrown, if any, the state it stopped in, and the items as it leaves them.
\<close>

fun importLoop ::
  "import_service \<Rightarrow> binary_file list \<Rightarrow> run_state \<Rightarrow> prepared_import_item list
     \<Rightarrow> thrown option \<times> run_state \<times> prepared_import_item list" where
  "importLoop svc binaryFiles st [] = (None, st, [])"
| "importLoop svc binaryFiles st (item # items) =
     (case importItemAsync svc (effects st) item binaryFiles (importedItems st) of
        (Inl e, evs, item') \<Rightarrow> (Some e, st\<lparr>effects := effects st @ evs\<rparr>, item' # items)
      | (Inr importedItem, evs, item') \<Rightarrow>
          (case importLoop svc binaryFiles
                  \<lparr>importedItems = importedItems st @ importedItem, effects = effects st @ evs\<rparr>
                  items of
             (r, st', items') \<Rightarrow> (r, st', item' # items')))"

text \<open>\<^verbatim>\<open>IImportData\<close>.\<close>

record import_data =
  orderedImportItems :: "prepared_import_item list"
  binaryFiles :: "binary_file list"

text \<open>
  \<^verbatim>\<open>importAsync\<close> starts from an empty \<^verbatim>\<open>importedItems\<close> and returns it when the loop
  ends; a value thrown in the loop rejects the promise, and the local array is not part of
  what the caller gets. \<open>h\<close> holds the effects that happened before the call; the second
  component is \<open>h\<close> followed by the effects of the run.
\<close>

definition importAsync ::
  "import_service \<Rightarrow> event list \<Rightarrow> import_data
     \<Rightarrow> (thrown + import_item_result list) \<times> event list \<times> prepared_import_item list" where
  "importAsync svc h importData =
     (case importLoop svc (binaryFiles importData) \<lparr>importedItems = [], effects = h\<rparr>
             (orderedImportItems importData) of
        (Some e, st, items') \<Rightarrow> (Inl e, effects st, items')
      | (None, st, items') \<Rightarrow> (Inr (importedItems st), effects st, items'))"

section \<open>Notions the properties are stated with\<close>

text \<open>
  The title the importers hand to \<^verbatim>\<open>processItem\<close>: the name the remote instance returned
  (the file name for an asset), and for a language variant the two codenames read from the
  payload before it is edited, as \<^verbatim>\<open>`${itemCodename} (${languageCodename})`\<close>.
\<close>

definition model_name :: "valid_import_model \<Rightarrow> string" where
  "model_name m =
     (case m of
        LanguageM r \<Rightarrow> lm_name r
      | AssetM r \<Rightarrow> am_fileName r
      | ContentTypeM r \<Rightarrow> ctm_name r
      | ContentTypeSnippetM r \<Rightarrow> csm_name r
      | TaxonomyM r \<Rightarrow> tm_name r
      | ContentItemM r \<Rightarrow> cim_name r
      | LanguageVariantM r \<Rightarrow> [])"

definition display_title :: "prepared_import_item \<Rightarrow> valid_import_model \<Rightarrow> string" where
  "display_title item m =
     (case item of
        LanguageVariantItem v \<Rightarrow>
          (case (ref_codename (lv_item v), ref_codename (lv_language v)) of
             (Some itemCodename, Some languageCodename) \<Rightarrow>
               itemCodename @ '' ('' @ languageCodename @ '')''
           | _ \<Rightarrow> [])
      | _ \<Rightarrow> model_name m)"

text \<open>
  The calls of the progress callback an item with results \<open>rs\<close> stands for: none without a
  configured callback, otherwise one per result, with the title, the kind tag and the
  imported model.
\<close>

definition expected_callbacks ::
  "import_config \<Rightarrow> prepared_import_item \<Rightarrow> import_item_result list \<Rightarrow> processed_item list" where
  "expected_callbacks cfg item rs =
     (case config_processItem cfg of
        None \<Rightarrow> []
      | Some f \<Rightarrow>
          map (\<lambda>r. \<lparr>pi_data = imported r, pi_title = display_title item (imported r),
                    pi_type = item_type item\<rparr>) rs)"

section \<open>A concrete service and concrete payloads\<close>

text \<open>
  A remote instance that accepts every call and derives the new identifiers from what it is
  sent, a configuration with a callback that returns, and a helper that leaves the variant as
  it is. The theorems below are instantiated with them.
\<close>

definition example_client :: management_client where
  "example_client =
     \<lparr>addLanguage = (\<lambda>h d. Inr \<lparr>lm_id = ''new-'' @ ld_codename d, lm_name = ld_name d,
                                 lm_codename = ld_codename d\<rparr>),
      uploadBinaryFile = (\<lambda>h d. Inr \<lparr>fr_id = ''file-'' @ ud_filename d, fr_type = ''internal''\<rparr>),
      addAsset = (\<lambda>h d. Inr \<lparr>am_id = ''new-'' @ fr_id (ad_file_reference d),
                              am_fileName = fr_id (ad_file_reference d)\<rparr>),
      addContentType = (\<lambda>h c. Inr \<lparr>ctm_id = ''new-'' @ content_type_id c,
                                    ctm_name = content_type_name c\<rparr>),
      addContentTypeSnippet = (\<lambda>h c. Inr \<lparr>csm_id = ''new-'' @ snippet_id c,
                                           csm_name = snippet_name c\<rparr>),
      addContentItem = (\<lambda>h d. Inr \<lparr>cim_id = ''new-'' @ cid_codename d, cim_name = cid_name d\<rparr>),
      addTaxonomy = (\<lambda>h t. Inr \<lparr>tm_id = ''new-'' @ taxonomy_id t, tm_name = taxonomy_name t\<rparr>),
      upsertLanguageVariant =
        (\<lambda>h i l e. Inr \<lparr>lvm_item = \<lparr>ref_id = Some (''new-'' @ i), ref_codename = Some i\<rparr>,
                         lvm_language = \<lparr>ref_id = None, ref_codename = Some l\<rparr>,
                         lvm_elements = e\<rparr>)\<rparr>"

definition example_config :: import_config where
  "example_config =
     \<lparr>config_skip = None, config_workflowIdForImportedItems = ''wf-target'',
      config_processItem = Some (\<lambda>p. None)\<rparr>"

definition example_service :: import_service where
  "example_service =
     \<lparr>config = example_config, client = example_client,
      replaceIdReferencesWithNewId = (\<lambda>v cur. (None, v))\<rparr>"

definition example_skipping_service :: import_service where
  "example_skipping_service =
     example_service\<lparr>config := example_config\<lparr>config_skip := Some \<lparr>skip_languages = Some True\<rparr>\<rparr>\<rparr>"

definition example_other_step_service :: import_service where
  "example_other_step_service =
     example_service\<lparr>config := example_config\<lparr>config_workflowIdForImportedItems := ''wf-other''\<rparr>\<rparr>"

definition example_throwing_service :: import_service where
  "example_throwing_service =
     example_service
       \<lparr>replaceIdReferencesWithNewId := (\<lambda>v cur. (Some (JsError ''Unresolved reference''), v))\<rparr>"

definition example_taxonomy :: taxonomy_contract where
  "example_taxonomy =
     \<lparr>taxonomy_id = ''t1'', taxonomy_name = ''Topics'', taxonomy_codename = ''topics'',
      taxonomy_terms = JArr []\<rparr>"

definition example_content_type :: content_type_contract where
  "example_content_type =
     \<lparr>content_type_id = ''ct1'', content_type_name = ''Article'',
      content_type_codename = ''article'', content_type_elements = JArr []\<rparr>"

definition example_content_item :: content_item_contract where
  "example_content_item =
     \<lparr>content_item_id = ''i1'', content_item_name = ''Hello'', content_item_codename = ''hello'',
      content_item_type = \<lparr>ref_id = Some ''ct1'', ref_codename = Some ''article''\<rparr>,
      content_item_external_id = None\<rparr>"

definition example_untyped_item :: content_item_contract where
  "example_untyped_item =
     example_content_item\<lparr>content_item_type := \<lparr>ref_id = Some ''ct1'', ref_codename = None\<rparr>\<rparr>"

definition example_language :: language_contract where
  "example_language =
     \<lparr>language_id = ''l1'', language_name = ''English'', language_codename = ''en'',
      language_external_id = None, language_is_active = True,
      language_fallback_language = Some \<lparr>ref_id = Some ''l1'', ref_codename = Some ''en''\<rparr>\<rparr>"

definition example_asset :: asset_contract where
  "example_asset =
     \<lparr>asset_id = ''a1'', asset_file_name = ''logo.png'', asset_title = Some ''Logo'',
      asset_type = ''image/png'', asset_descriptions = JArr [], asset_external_id = None\<rparr>"

definition example_binary :: binary_file where
  "example_binary = \<lparr>bf_asset = example_asset, bf_binaryData = [1, 2, 3]\<rparr>"

definition example_variant :: language_variant_contract where
  "example_variant =
     \<lparr>lv_item = \<lparr>ref_id = Some ''i1'', ref_codename = Some ''hello''\<rparr>,
      lv_language = \<lparr>ref_id = Some ''l1'', ref_codename = Some ''en''\<rparr>,
      lv_workflow_step = \<lparr>ref_id = Some ''wf-source'', ref_codename = None\<rparr>,
      lv_elements = JArr [JObj [(''value'', JStr ''Hi'')]]\<rparr>"

definition example_french :: language_contract where
  "example_french =
     \<lparr>language_id = ''l2'', language_name = ''French'', language_codename = ''fr'',
      language_external_id = None, language_is_active = True,
      language_fallback_language = Some \<lparr>ref_id = Some ''l1'', ref_codename = Some ''en''\<rparr>\<rparr>"

definition example_unaddressed_variant :: language_variant_contract where
  "example_unaddressed_variant =
     example_variant\<lparr>lv_item := \<lparr>ref_id = Some ''i1'', ref_codename = None\<rparr>\<rparr>"

definition example_prefix_results :: "import_item_result list" where
  "example_prefix_results =
     [\<lparr>imported = TaxonomyM \<lparr>tm_id = ''new-t1'', tm_name = ''Topics''\<rparr>,
       original = TaxonomyC example_taxonomy,
       importId = Some ''new-t1'', originalId = Some ''t1''\<rparr>,
      \<lparr>imported = ContentTypeM \<lparr>ctm_id = ''new-ct1'', ctm_name = ''Article''\<rparr>,
       original = ContentTypeC example_content_type,
       importId = Some ''new-ct1'', originalId = Some ''ct1''\<rparr>]"

definition example_prefix_effects :: "event list" where
  "example_prefix_effects =
     [Remote (AddTaxonomy example_taxonomy),
      Callback \<lparr>pi_data = TaxonomyM \<lparr>tm_id = ''new-t1'', tm_name = ''Topics''\<rparr>,
                pi_title = ''Topics'', pi_type = ''taxonomy''\<rparr>,
      Remote (AddContentType example_content_type),
      Callback \<lparr>pi_data = ContentTypeM \<lparr>ctm_id = ''new-ct1'', ctm_name = ''Article''\<rparr>,
                pi_title = ''Article'', pi_type = ''contentType''\<rparr>]"

lemmas example_defs =
  example_client_def example_config_def example_service_def example_skipping_service_def
  example_other_step_service_def example_throwing_service_def
  example_taxonomy_def example_content_type_def example_content_item_def
  example_untyped_item_def example_language_def example_asset_def example_binary_def
  example_variant_def example_french_def example_unaddressed_variant_def
  example_prefix_results_def example_prefix_effects_def

lemmas service_defs =
  importAsync_def importLanguagesAsync_def importLanguage_def importAssetsAsync_def
  importAsset_def importContentTypesAsync_def importContentType_def importContentItemAsync_def
  importContentItem_def importContentTypeSnippetsAsync_def importContentTypeSnippet_def
  importTaxonomiesAsync_def importTaxonomy_def importLanguageVariantsAsync_def
  importLanguageVariant_def then_catch_def processItem_def handleImportError_def
  skips_languages_def quoted_def no_fallback_id_def Let_def

section \<open>Auxiliary facts\<close>

lemma truthy_Some: "truthy v = Some s \<longleftrightarrow> v = Some s \<and> s \<noteq> []"
  by (cases v) auto

lemma truthy_None: "truthy v = None \<longleftrightarrow> v = None \<or> v = Some []"
  by (cases v) auto

lemma for_of_single:
  "for_of body h [x] [] =
     (case body h x of (Inl e, evs) \<Rightarrow> (Inl e, evs) | (Inr r, evs) \<Rightarrow> (Inr [r], evs))"
  by (simp split: prod.splits sum.splits)

lemma variants_loop_single:
  "importLanguageVariantsLoop svc cur h [v] [] =
     (case importLanguageVariant svc cur h v of
        (Inl e, evs, v') \<Rightarrow> (Inl e, evs, [v'])
      | (Inr r, evs, v') \<Rightarrow> (Inr [r], evs, [v']))"
  by (simp split: prod.splits sum.splits)

lemma then_catch_remote_calls:
  "remote_calls (snd (then_catch cfg p mk title type)) = []"
  by (simp add: then_catch_def handleImportError_def processItem_def Let_def
      split: sum.splits option.splits prod.splits)

lemma then_catch_Inr:
  assumes "then_catch cfg p mk title type = (Inr r, evs)"
  shows "\<exists>response. p = Inr response \<and> r = mk response \<and>
           callbacks evs =
             (case config_processItem cfg of
                None \<Rightarrow> []
              | Some f \<Rightarrow> [\<lparr>pi_data = imported r, pi_title = title response, pi_type = type\<rparr>])"
  using assms
  by (auto simp add: then_catch_def handleImportError_def processItem_def Let_def
      split: sum.splits option.splits prod.splits)

lemma importLoop_append:
  "importLoop svc bfs st (xs @ ys) =
     (case importLoop svc bfs st xs of
        (Some e, st', xs') \<Rightarrow> (Some e, st', xs' @ ys)
      | (None, st', xs') \<Rightarrow>
          (case importLoop svc bfs st' ys of (r, st'', ys') \<Rightarrow> (r, st'', xs' @ ys')))"
  by (induction xs arbitrary: st) (auto split: prod.splits sum.splits option.splits)

lemma for_of_single_snd: "snd (for_of body h [x] []) = snd (body h x)"
  by (simp split: prod.splits sum.splits)

lemma for_of_single_fst:
  "fst (for_of body h [x] []) = (case fst (body h x) of Inl e \<Rightarrow> Inl e | Inr r \<Rightarrow> Inr [r])"
  by (simp split: prod.splits sum.splits)

lemma variants_loop_single_events:
  "fst (snd (importLanguageVariantsLoop svc cur h [v] [])) = fst (snd (importLanguageVariant svc cur h v))"
  by (simp split: prod.splits sum.splits)

lemma then_catch_no_remote:
  "then_catch cfg p mk title type = (res, evs) \<Longrightarrow> remote_calls evs = []"
  using then_catch_remote_calls [of cfg p mk title type] by simp

lemma then_catch_skip: "then_catch (cfg\<lparr>config_skip := s\<rparr>) = then_catch cfg"
  by (intro ext) (simp add: then_catch_def processItem_def split: sum.splits)

lemma importItemAsync_callbacks:
  assumes "importItemAsync svc h x bfs cur = (Inr rs, evs, x')"
  shows "callbacks evs = expected_callbacks (config svc) x rs"
proof (cases x)
  case (ContentTypeItem c)
  with assms show ?thesis
    by (auto simp add: importContentTypesAsync_def for_of_single importContentType_def
        expected_callbacks_def display_title_def model_name_def
        split: prod.splits sum.splits option.splits dest!: then_catch_Inr)
next
  case (TaxonomyItem t)
  with assms show ?thesis
    by (auto simp add: importTaxonomiesAsync_def for_of_single importTaxonomy_def
        expected_callbacks_def display_title_def model_name_def
        split: prod.splits sum.splits option.splits dest!: then_catch_Inr)
next
  case (ContentTypeSnippetItem s)
  with assms show ?thesis
    by (auto simp add: importContentTypeSnippetsAsync_def for_of_single importContentTypeSnippet_def
        expected_callbacks_def display_title_def model_name_def
        split: prod.splits sum.splits option.splits dest!: then_catch_Inr)
next
  case (ContentItemItem c)
  with assms show ?thesis
    by (auto simp add: importContentItemAsync_def for_of_single importContentItem_def Let_def
        expected_callbacks_def display_title_def model_name_def
        split: prod.splits sum.splits option.splits dest!: then_catch_Inr)
next
  case (LanguageVariantItem v)
  with assms show ?thesis
    by (auto simp add: importLanguageVariantsAsync_def variants_loop_single
        importLanguageVariant_def Let_def truthy_Some
        expected_callbacks_def display_title_def model_name_def
        split: prod.splits sum.splits option.splits dest!: then_catch_Inr)
next
  case (LanguageItem l)
  with assms show ?thesis
    by (auto simp add: importLanguagesAsync_def for_of_single importLanguage_def Let_def
        expected_callbacks_def display_title_def model_name_def
        split: prod.splits sum.splits option.splits if_splits dest!: then_catch_Inr)
next
  case (AssetItem a)
  with assms show ?thesis
    by (auto simp add: importAssetsAsync_def for_of_single importAsset_def Let_def
        expected_callbacks_def display_title_def model_name_def
        split: prod.splits sum.splits option.splits dest!: then_catch_Inr)
next
  case (OtherItem t p)
  with assms show ?thesis by simp
qed

section \<open>Properties of the import run\<close>

subsection \<open>C1: the first fatal error\<close>

text \<open>
  C1 says that a run in which an item fails halts at that item, attempts no later item,
  returns the results of the items completed before it, and propagates the error. The promise
  of \<^verbatim>\<open>importAsync\<close> is rejected when an item throws, so the caller gets the error and no
  results. On the list taxonomy, content type, content item without type codename, taxonomy,
  the first two items alone give two results; the whole list gives the error of the third item
  and not those two results.
\<close>

theorem importAsync_returns_no_prefix_counterexample:
  "fst (importAsync example_service []
           \<lparr>orderedImportItems =
              [TaxonomyItem example_taxonomy, ContentTypeItem example_content_type],
            binaryFiles = []\<rparr>)
     = Inr example_prefix_results
   \<and> fst (importAsync example_service []
           \<lparr>orderedImportItems =
              [TaxonomyItem example_taxonomy, ContentTypeItem example_content_type,
               ContentItemItem example_untyped_item, TaxonomyItem example_taxonomy],
            binaryFiles = []\<rparr>)
     = Inl (JsError (''Content item '' @ quoted ''hello'' @ '' has unset type codename''))
   \<and> fst (importAsync example_service []
           \<lparr>orderedImportItems =
              [TaxonomyItem example_taxonomy, ContentTypeItem example_content_type,
               ContentItemItem example_untyped_item, TaxonomyItem example_taxonomy],
            binaryFiles = []\<rparr>)
     \<noteq> Inr example_prefix_results"
  by (simp add: service_defs example_defs)

text \<open>
  C1 as amended: when the items \<open>xs\<close> before an item \<open>x\<close> all complete, with results
  \<open>rs\<close>, and \<open>x\<close> then fails with \<open>e\<close>, the run over \<open>xs\<close>, \<open>x\<close> and any later
  items \<open>ys\<close> halts at \<open>x\<close>: its effects are those of \<open>xs\<close> followed by those of the
  failing call, whatever \<open>ys\<close> is, the items \<open>ys\<close> are left as they were, and the caller
  gets the error \<open>e\<close> alone.
\<close>

theorem importAsync_halts_at_first_error:
  assumes "importAsync svc h \<lparr>orderedImportItems = xs, binaryFiles = bfs\<rparr> = (Inr rs, log, xs')"
    and "importItemAsync svc log x bfs rs = (Inl e, evs, x')"
  shows "importAsync svc h \<lparr>orderedImportItems = xs @ x # ys, binaryFiles = bfs\<rparr>
           = (Inl e, log @ evs, xs' @ x' # ys)"
  using assms
  by (auto simp add: importAsync_def importLoop_append split: prod.splits option.splits)

text \<open>
  The amended C1 on the list of the counterexample: the two results of the prefix exist, the
  third item throws, and the run gives the error and the effects of the first two items.
\<close>

theorem importAsync_halts_at_first_error_witness:
  "importAsync example_service []
     \<lparr>orderedImportItems =
        [TaxonomyItem example_taxonomy, ContentTypeItem example_content_type]
          @ ContentItemItem example_untyped_item # [TaxonomyItem example_taxonomy],
      binaryFiles = []\<rparr>
   = (Inl (JsError (''Content item '' @ quoted ''hello'' @ '' has unset type codename'')),
      example_prefix_effects @ [],
      [TaxonomyItem example_taxonomy, ContentTypeItem example_content_type]
        @ ContentItemItem example_untyped_item # [TaxonomyItem example_taxonomy])"
proof -
  have prefix:
    "importAsync example_service []
       \<lparr>orderedImportItems = [TaxonomyItem example_taxonomy, ContentTypeItem example_content_type],
        binaryFiles = []\<rparr>
     = (Inr example_prefix_results, example_prefix_effects,
        [TaxonomyItem example_taxonomy, ContentTypeItem example_content_type])"
    by (simp add: service_defs example_defs)
  have failing:
    "importItemAsync example_service example_prefix_effects
       (ContentItemItem example_untyped_item) [] example_prefix_results
     = (Inl (JsError (''Content item '' @ quoted ''hello'' @ '' has unset type codename'')), [],
        ContentItemItem example_untyped_item)"
    by (simp add: service_defs example_defs)
  show ?thesis
    by (rule importAsync_halts_at_first_error [OF prefix failing])
qed

subsection \<open>C2: one item after the other\<close>

text \<open>
  C2: \<^verbatim>\<open>importAsync\<close> takes the items in the given order, one at a time. A run over no
  items returns no results and has no effects. A run over \<open>xs\<close> followed by \<open>x\<close> is the
  run over \<open>xs\<close> and then, when that completed, the one call of \<^verbatim>\<open>importItemAsync\<close> on
  \<open>x\<close>, which gets as accumulated results exactly the results \<open>rs\<close> of \<open>xs\<close> and starts
  after all effects of \<open>xs\<close>; the run returns \<open>rs\<close> followed by the results of \<open>x\<close>.
  So the returned sequence is the concatenation of the items' results in input order. Each
  call that succeeds invokes the configured callback once per result, with the display title,
  the kind tag and the imported model, and not at all when no callback is configured.
\<close>

theorem importAsync_sequential:
  "importAsync svc h \<lparr>orderedImportItems = [], binaryFiles = bfs\<rparr> = (Inr [], h, [])
   \<and> importAsync svc h \<lparr>orderedImportItems = xs @ [x], binaryFiles = bfs\<rparr> =
     (case importAsync svc h \<lparr>orderedImportItems = xs, binaryFiles = bfs\<rparr> of
        (Inl e, log, xs') \<Rightarrow> (Inl e, log, xs' @ [x])
      | (Inr rs, log, xs') \<Rightarrow>
          (case importItemAsync svc log x bfs rs of
             (Inl e, evs, x') \<Rightarrow> (Inl e, log @ evs, xs' @ [x'])
           | (Inr r, evs, x') \<Rightarrow> (Inr (rs @ r), log @ evs, xs' @ [x'])))
   \<and> (importItemAsync svc h' x bfs cur = (Inr r, evs, x')
        \<longrightarrow> callbacks evs = expected_callbacks (config svc) x r)"
  by (auto simp add: importAsync_def importLoop_append importItemAsync_callbacks
      split: prod.splits option.splits sum.splits)

text \<open>
  C2 on the taxonomy item: the call succeeds with one result, and the callback is invoked
  once, with the title \<open>Topics\<close>, the kind \<open>taxonomy\<close> and the created taxonomy.
\<close>

theorem importAsync_sequential_witness:
  "importItemAsync example_service [] (TaxonomyItem example_taxonomy) [] []
     = (Inr [hd example_prefix_results], take 2 example_prefix_effects,
        TaxonomyItem example_taxonomy)
   \<and> callbacks (take 2 example_prefix_effects)
     = expected_callbacks (config example_service) (TaxonomyItem example_taxonomy)
         [hd example_prefix_results]"
proof -
  have run: "importItemAsync example_service [] (TaxonomyItem example_taxonomy) [] []
     = (Inr [hd example_prefix_results], take 2 example_prefix_effects,
        TaxonomyItem example_taxonomy)"
    by (simp add: service_defs example_defs)
  from importAsync_sequential
      [where svc = example_service and h' = "[]" and x = "TaxonomyItem example_taxonomy"
         and bfs = "[]" and cur = "[]" and r = "[hd example_prefix_results]"
         and evs = "take 2 example_prefix_effects" and x' = "TaxonomyItem example_taxonomy"]
    run
  show ?thesis by blast
qed

subsection \<open>C3: the fallback language\<close>

text \<open>
  C3: for a language whose fallback-language codename \<open>fb\<close> is set, the one remote call
  of the import is the create-language request; its fallback language is the identifier
  \<open>00000000-0000-0000-0000-000000000000\<close> when the language's own codename equals
  \<open>fb\<close>, and the codename \<open>fb\<close> otherwise. The accumulated results play no part: the call
  gives the same with any two of them.
\<close>

theorem importLanguagesAsync_fallback_reference:
  assumes "language_fallback_language language = Some fl"
    and "ref_codename fl = Some fb" and "fb \<noteq> []"
  shows "remote_calls (snd (importLanguagesAsync svc h [language])) =
           [AddLanguage
              \<lparr>ld_codename = language_codename language,
               ld_name = language_name language,
               ld_external_id = language_external_id language,
               ld_fallback_language =
                 (if language_codename language = fb
                  then \<lparr>ref_id = Some ''00000000-0000-0000-0000-000000000000'', ref_codename = None\<rparr>
                  else \<lparr>ref_id = None, ref_codename = Some fb\<rparr>),
               ld_is_active = language_is_active language\<rparr>]
         \<and> importItemAsync svc h (LanguageItem language) bfs cur
             = importItemAsync svc h (LanguageItem language) bfs cur'"
  using assms
  by (simp add: importLanguagesAsync_def for_of_single_snd importLanguage_def Let_def
      no_fallback_id_def then_catch_remote_calls case_prod_beta del: for_of.simps)

text \<open>
  C3 on English, which falls back to itself, and on French, which falls back to English.
\<close>

theorem importLanguagesAsync_fallback_reference_witness:
  "remote_calls (snd (importLanguagesAsync example_service [] [example_language])) =
     [AddLanguage
        \<lparr>ld_codename = ''en'', ld_name = ''English'', ld_external_id = None,
         ld_fallback_language =
           \<lparr>ref_id = Some ''00000000-0000-0000-0000-000000000000'', ref_codename = None\<rparr>,
         ld_is_active = True\<rparr>]
   \<and> remote_calls (snd (importLanguagesAsync example_service [] [example_french])) =
     [AddLanguage
        \<lparr>ld_codename = ''fr'', ld_name = ''French'', ld_external_id = None,
         ld_fallback_language = \<lparr>ref_id = None, ref_codename = Some ''en''\<rparr>,
         ld_is_active = True\<rparr>]"
  using importLanguagesAsync_fallback_reference
      [where language = example_language and fb = "''en''" and svc = example_service
         and fl = "\<lparr>ref_id = Some ''l1'', ref_codename = Some ''en''\<rparr>" and h = "[]"]
    importLanguagesAsync_fallback_reference
      [where language = example_french and fb = "''en''" and svc = example_service
         and fl = "\<lparr>ref_id = Some ''l1'', ref_codename = Some ''en''\<rparr>" and h = "[]"]
  by (simp add: example_defs)

subsection \<open>C4: an asset and its binary\<close>

text \<open>
  C4: an asset whose id no supplied binary file carries fails with an error and no effect
  at all, so neither the upload nor the create is sent. When \<open>binaryFile\<close> is the first
  binary with the asset's id, the upload of its bytes is the first call; if it is rejected the
  import ends there, and if it returns a file reference the create-asset request follows,
  carrying that reference.
\<close>

theorem importAssetsAsync_binary_first:
  "(asset_id asset \<notin> set (map (\<lambda>m. asset_id (bf_asset m)) bfs)
      \<longrightarrow> importAssetsAsync svc h [asset] bfs =
            (Inl (JsError (''Could not find binary file for asset with id ''
                             @ quoted (asset_id asset))), []))
   \<and> (find (\<lambda>m. asset_id (bf_asset m) = asset_id asset) bfs = Some binaryFile
      \<longrightarrow> (case uploadBinaryFile (client svc) h
                   \<lparr>ud_binaryData = bf_binaryData binaryFile, ud_contentType = asset_type asset,
                    ud_filename = asset_file_name asset\<rparr> of
              Inl e \<Rightarrow>
                importAssetsAsync svc h [asset] bfs =
                  (Inl e,
                   [Remote (UploadBinaryFile
                      \<lparr>ud_binaryData = bf_binaryData binaryFile, ud_contentType = asset_type asset,
                       ud_filename = asset_file_name asset\<rparr>)])
            | Inr uploaded \<Rightarrow>
                remote_calls (snd (importAssetsAsync svc h [asset] bfs)) =
                  [UploadBinaryFile
                     \<lparr>ud_binaryData = bf_binaryData binaryFile, ud_contentType = asset_type asset,
                      ud_filename = asset_file_name asset\<rparr>,
                   AddAsset
                     \<lparr>ad_descriptions = asset_descriptions asset, ad_file_reference = uploaded,
                      ad_title = asset_title asset, ad_external_id = asset_external_id asset\<rparr>]))"
proof -
  have none: "find (\<lambda>m. asset_id (bf_asset m) = asset_id asset) bfs = None"
    if "asset_id asset \<notin> set (map (\<lambda>m. asset_id (bf_asset m)) bfs)"
    using that by (force simp add: find_None_iff)
  show ?thesis
    by (auto simp add: none importAssetsAsync_def for_of_single_snd for_of_single_fst
        importAsset_def prod_eq_iff
        Let_def then_catch_remote_calls case_prod_beta simp del: for_of.simps split: sum.splits)
qed

text \<open>
  C4 on the example asset, without binaries and with its binary.
\<close>

theorem importAssetsAsync_binary_first_witness:
  "importAssetsAsync example_service [] [example_asset] [] =
     (Inl (JsError (''Could not find binary file for asset with id '' @ quoted ''a1'')), [])
   \<and> remote_calls (snd (importAssetsAsync example_service [] [example_asset] [example_binary])) =
     [UploadBinaryFile
        \<lparr>ud_binaryData = [1, 2, 3], ud_contentType = ''image/png'', ud_filename = ''logo.png''\<rparr>,
      AddAsset
        \<lparr>ad_descriptions = JArr [],
         ad_file_reference = \<lparr>fr_id = ''file-logo.png'', fr_type = ''internal''\<rparr>,
         ad_title = Some ''Logo'', ad_external_id = None\<rparr>]"
  using importAssetsAsync_binary_first
      [where asset = example_asset and bfs = "[]" and svc = example_service and h = "[]"]
    importAssetsAsync_binary_first
      [where asset = example_asset and bfs = "[example_binary]" and svc = example_service
         and h = "[]" and binaryFile = example_binary]
  by (simp add: example_defs)

subsection \<open>C5: a language variant is addressed by two codenames\<close>

text \<open>
  C5: a language variant whose item codename or language codename is missing
  (\<^verbatim>\<open>undefined\<close> or empty) fails with an error, without any effect and with the variant
  untouched. When both are present, the only remote call the import can make is the upsert
  addressed by the item codename and the language codename; it is made unless the reference
  helper throws.
\<close>

theorem importLanguageVariantsAsync_upsert_by_codenames:
  "(truthy (ref_codename (lv_item v)) = None \<or> truthy (ref_codename (lv_language v)) = None
      \<longrightarrow> importLanguageVariantsAsync svc h [v] cur =
            (Inl (JsError (if truthy (ref_codename (lv_item v)) = None
                           then ''Missing item codename for item''
                           else ''Missing language codename for item'')), [], [v]))
   \<and> (ref_codename (lv_item v) = Some itemCodename \<and> itemCodename \<noteq> [] \<and>
      ref_codename (lv_language v) = Some languageCodename \<and> languageCodename \<noteq> []
      \<longrightarrow> remote_calls (fst (snd (importLanguageVariantsAsync svc h [v] cur))) =
            (case replaceIdReferencesWithNewId svc v cur of
               (Some e, rewritten) \<Rightarrow> []
             | (None, rewritten) \<Rightarrow>
                 [UpsertLanguageVariant itemCodename languageCodename (lv_elements rewritten)]))"
  by (auto simp add: importLanguageVariantsAsync_def variants_loop_single
      importLanguageVariant_def Let_def
      split: prod.splits sum.splits option.splits dest: then_catch_no_remote)

text \<open>
  C5 on a variant without item codename and on the example variant.
\<close>

theorem importLanguageVariantsAsync_upsert_by_codenames_witness:
  "importLanguageVariantsAsync example_service [] [example_unaddressed_variant] [] =
     (Inl (JsError ''Missing item codename for item''), [], [example_unaddressed_variant])
   \<and> remote_calls (fst (snd (importLanguageVariantsAsync example_service [] [example_variant] []))) =
     [UpsertLanguageVariant ''hello'' ''en'' (JArr [JObj [(''value'', JStr ''Hi'')]])]"
  using importLanguageVariantsAsync_upsert_by_codenames
      [where v = example_unaddressed_variant and svc = example_service and h = "[]"
         and cur = "[]"]
    importLanguageVariantsAsync_upsert_by_codenames
      [where v = example_variant and svc = example_service and h = "[]" and cur = "[]"
         and itemCodename = "''hello''" and languageCodename = "''en''"]
  by (simp add: example_defs)

subsection \<open>C6: the workflow step of an imported variant\<close>




subsection \<open>C7: a content item names its type by codename\<close>

text \<open>
  C7: a content item whose type codename is absent (\<^verbatim>\<open>undefined\<close> or empty) fails
  with an error and no effect. When it is present, the one remote call is the create-item
  request, whose type reference holds the codename and no id.
\<close>

theorem importContentItemAsync_type_by_codename:
  "(ref_codename (content_item_type contentItem) = None
      \<or> ref_codename (content_item_type contentItem) = Some []
      \<longrightarrow> importContentItemAsync svc h [contentItem] =
            (Inl (JsError (''Content item '' @ quoted (content_item_codename contentItem)
                             @ '' has unset type codename'')), []))
   \<and> (ref_codename (content_item_type contentItem) = Some typeCodename \<and> typeCodename \<noteq> []
      \<longrightarrow> remote_calls (snd (importContentItemAsync svc h [contentItem])) =
            [AddContentItem
               \<lparr>cid_name = content_item_name contentItem,
                cid_type = \<lparr>ref_id = None, ref_codename = Some typeCodename\<rparr>,
                cid_codename = content_item_codename contentItem,
                cid_external_id = content_item_external_id contentItem\<rparr>])"
  by (auto simp add: importContentItemAsync_def for_of_single_fst for_of_single_snd prod_eq_iff
      importContentItem_def Let_def then_catch_remote_calls case_prod_beta
      simp del: for_of.simps)

text \<open>
  C7 on an item without type codename and on an item of type \<open>article\<close>.
\<close>

theorem importContentItemAsync_type_by_codename_witness:
  "importContentItemAsync example_service [] [example_untyped_item] =
     (Inl (JsError (''Content item '' @ quoted ''hello'' @ '' has unset type codename'')), [])
   \<and> remote_calls (snd (importContentItemAsync example_service [] [example_content_item])) =
     [AddContentItem
        \<lparr>cid_name = ''Hello'', cid_type = \<lparr>ref_id = None, ref_codename = Some ''article''\<rparr>,
         cid_codename = ''hello'', cid_external_id = None\<rparr>]"
  using importContentItemAsync_type_by_codename
      [where contentItem = example_untyped_item and svc = example_service and h = "[]"]
    importContentItemAsync_type_by_codename
      [where contentItem = example_content_item and typeCodename = "''article''"
         and svc = example_service and h = "[]"]
  by (simp add: example_defs)

subsection \<open>C8: what the import does to the payloads\<close>

text \<open>
  C8 says that the import never edits the payload it was given. For a language variant it
  does: the assignment to \<^verbatim>\<open>workflow_step.id\<close> writes to the object of the caller. After
  the import of the example variant its workflow step is \<open>wf-target\<close>, not \<open>wf-source\<close>.
\<close>

theorem importItemAsync_edits_variant_counterexample:
  "snd (snd (importItemAsync example_service [] (LanguageVariantItem example_variant) [] []))
     = LanguageVariantItem
         (example_variant\<lparr>lv_workflow_step := \<lparr>ref_id = Some ''wf-target'', ref_codename = None\<rparr>\<rparr>)
   \<and> snd (snd (importItemAsync example_service [] (LanguageVariantItem example_variant) [] []))
     \<noteq> LanguageVariantItem example_variant"
  by (simp add: service_defs example_defs)

text \<open>
  C8 as amended: an item of any kind other than language variant is left as it was. A
  language variant rejected for a missing codename is left as it was. A language variant with
  both codenames is edited in place. When the reference helper returns, the variant is
  afterwards as the helper left it, with the workflow step identifier replaced by the
  configured one. When the helper throws, the variant is afterwards as the helper left it,
  the workflow step identifier is not replaced, and no remote call is made.
\<close>

theorem importItemAsync_payload_after:
  "(item_type item \<noteq> ''languageVariant''
      \<longrightarrow> snd (snd (importItemAsync svc h item bfs cur)) = item)
   \<and> (truthy (ref_codename (lv_item v)) = None \<or> truthy (ref_codename (lv_language v)) = None
      \<longrightarrow> snd (snd (importItemAsync svc h (LanguageVariantItem v) bfs cur))
            = LanguageVariantItem v)
   \<and> (truthy (ref_codename (lv_item v)) \<noteq> None \<and> truthy (ref_codename (lv_language v)) \<noteq> None
      \<and> replaceIdReferencesWithNewId svc v cur = (None, rewritten)
      \<longrightarrow> snd (snd (importItemAsync svc h (LanguageVariantItem v) bfs cur))
            = LanguageVariantItem
                (rewritten\<lparr>lv_workflow_step :=
                   (lv_workflow_step rewritten)
                     \<lparr>ref_id := Some (config_workflowIdForImportedItems (config svc))\<rparr>\<rparr>))
   \<and> (truthy (ref_codename (lv_item v)) \<noteq> None \<and> truthy (ref_codename (lv_language v)) \<noteq> None
      \<and> replaceIdReferencesWithNewId svc v cur = (Some e, abandoned)
      \<longrightarrow> importItemAsync svc h (LanguageVariantItem v) bfs cur
            = (Inl e, [], LanguageVariantItem abandoned))"
proof -
  have a: "snd (snd (importItemAsync svc h item bfs cur)) = item"
    if "item_type item \<noteq> ''languageVariant''"
    using that by (cases item) (auto split: prod.splits)
  have b: "snd (snd (importItemAsync svc h (LanguageVariantItem v) bfs cur))
             = LanguageVariantItem v"
    if "truthy (ref_codename (lv_item v)) = None \<or> truthy (ref_codename (lv_language v)) = None"
    using that
    by (auto simp add: importLanguageVariantsAsync_def variants_loop_single
        importLanguageVariant_def split: prod.splits sum.splits option.splits)
  have c: "snd (snd (importItemAsync svc h (LanguageVariantItem v) bfs cur))
            = LanguageVariantItem
                (rewritten\<lparr>lv_workflow_step :=
                   (lv_workflow_step rewritten)
                     \<lparr>ref_id := Some (config_workflowIdForImportedItems (config svc))\<rparr>\<rparr>)"
    if "truthy (ref_codename (lv_item v)) \<noteq> None" "truthy (ref_codename (lv_language v)) \<noteq> None"
      "replaceIdReferencesWithNewId svc v cur = (None, rewritten)"
    using that
    by (auto simp add: importLanguageVariantsAsync_def variants_loop_single
        importLanguageVariant_def Let_def split: prod.splits sum.splits option.splits)
  have d: "importItemAsync svc h (LanguageVariantItem v) bfs cur
             = (Inl e, [], LanguageVariantItem abandoned)"
    if "truthy (ref_codename (lv_item v)) \<noteq> None" "truthy (ref_codename (lv_language v)) \<noteq> None"
      "replaceIdReferencesWithNewId svc v cur = (Some e, abandoned)"
    using that
    by (auto simp add: importLanguageVariantsAsync_def variants_loop_single
        importLanguageVariant_def Let_def split: prod.splits sum.splits option.splits)
  from a b c d show ?thesis by blast
qed

text \<open>
  The amended C8 on the example taxonomy, on a variant without item codename, on the
  example variant, and on the example variant with a helper that throws: its workflow step
  stays \<open>wf-source\<close>.
\<close>

theorem importItemAsync_payload_after_witness:
  "snd (snd (importItemAsync example_service [] (TaxonomyItem example_taxonomy) [] []))
     = TaxonomyItem example_taxonomy
   \<and> snd (snd (importItemAsync example_service []
                 (LanguageVariantItem example_unaddressed_variant) [] []))
     = LanguageVariantItem example_unaddressed_variant
   \<and> snd (snd (importItemAsync example_service [] (LanguageVariantItem example_variant) [] []))
     = LanguageVariantItem
         (example_variant\<lparr>lv_workflow_step := \<lparr>ref_id = Some ''wf-target'', ref_codename = None\<rparr>\<rparr>)
   \<and> importItemAsync example_throwing_service [] (LanguageVariantItem example_variant) [] []
     = (Inl (JsError ''Unresolved reference''), [], LanguageVariantItem example_variant)
   \<and> ref_id (lv_workflow_step example_variant) = Some ''wf-source''"
  using importItemAsync_payload_after
      [where item = "TaxonomyItem example_taxonomy" and svc = example_service and h = "[]"
         and bfs = "[]" and cur = "[]" and v = example_unaddressed_variant]
    importItemAsync_payload_after
      [where item = "TaxonomyItem example_taxonomy" and svc = example_throwing_service
         and h = "[]" and bfs = "[]" and cur = "[]" and v = example_variant
         and e = "JsError ''Unresolved reference''" and abandoned = example_variant]
    importItemAsync_payload_after
      [where item = "TaxonomyItem example_taxonomy" and svc = example_service and h = "[]"
         and bfs = "[]" and cur = "[]" and v = example_variant and rewritten = example_variant]
  by (simp add: example_defs)

subsection \<open>C9: an unsupported kind\<close>

text \<open>
  C9: an item whose kind tag is none of the seven supported ones makes
  \<^verbatim>\<open>importItemAsync\<close> throw an error naming the tag, with no effect; in the loop of
  \<^verbatim>\<open>importAsync\<close> the accumulated results and the effects are then as before the item.
\<close>

theorem importItemAsync_unsupported_type:
  assumes "item_type item \<notin> set supported_types"
  shows "importItemAsync svc h item bfs cur =
           (Inl (JsError (''Not supported import data type '' @ quoted (item_type item))), [], item)
         \<and> importLoop svc bfs st (item # items) =
             (Some (JsError (''Not supported import data type '' @ quoted (item_type item))),
              st, item # items)"
  using assms by (cases item) (simp_all add: supported_types_def)

text \<open>
  C9 on an item tagged \<open>workflow\<close>, met after two items were imported.
\<close>

theorem importItemAsync_unsupported_type_witness:
  "importItemAsync example_service [] (OtherItem ''workflow'' JNull) [] example_prefix_results =
     (Inl (JsError (''Not supported import data type '' @ quoted ''workflow'')), [],
      OtherItem ''workflow'' JNull)
   \<and> importLoop example_service []
       \<lparr>importedItems = example_prefix_results, effects = example_prefix_effects\<rparr>
       [OtherItem ''workflow'' JNull, TaxonomyItem example_taxonomy] =
     (Some (JsError (''Not supported import data type '' @ quoted ''workflow'')),
      \<lparr>importedItems = example_prefix_results, effects = example_prefix_effects\<rparr>,
      [OtherItem ''workflow'' JNull, TaxonomyItem example_taxonomy])"
  using importItemAsync_unsupported_type
      [where item = "OtherItem ''workflow'' JNull" and svc = example_service and h = "[]"
         and bfs = "[]" and cur = example_prefix_results
         and st = "\<lparr>importedItems = example_prefix_results, effects = example_prefix_effects\<rparr>"
         and items = "[TaxonomyItem example_taxonomy]"]
  by (simp add: supported_types_def)

subsection \<open>C10: skipping languages\<close>

text \<open>
  C10: with \<^verbatim>\<open>skip.languages\<close> set to \<^verbatim>\<open>true\<close>, a language item gives an empty
  result list and has no effect, and an item of any other kind is imported as it is with any
  other value \<open>s\<close> of \<^verbatim>\<open>skip\<close>.
\<close>

theorem importItemAsync_skip_languages:
  assumes "config_skip (config svc) = Some sk" and "skip_languages sk = Some True"
  shows "importItemAsync svc h (LanguageItem l) bfs cur = (Inr [], [], LanguageItem l)
         \<and> (item_type item \<noteq> ''language''
            \<longrightarrow> importItemAsync svc h item bfs cur =
                importItemAsync (svc\<lparr>config := (config svc)\<lparr>config_skip := s\<rparr>\<rparr>) h item bfs cur)"
proof -
  let ?svc = "svc\<lparr>config := (config svc)\<lparr>config_skip := s\<rparr>\<rparr>"
  have 1: "importContentType ?svc = importContentType svc"
    by (intro ext) (simp add: importContentType_def then_catch_skip Let_def split: option.splits sum.splits prod.splits)
  have 2: "importTaxonomy ?svc = importTaxonomy svc"
    by (intro ext) (simp add: importTaxonomy_def then_catch_skip Let_def split: option.splits sum.splits prod.splits)
  have 3: "importContentTypeSnippet ?svc = importContentTypeSnippet svc"
    by (intro ext) (simp add: importContentTypeSnippet_def then_catch_skip Let_def split: option.splits sum.splits prod.splits)
  have 4: "importContentItem ?svc = importContentItem svc"
    by (intro ext) (simp add: importContentItem_def then_catch_skip Let_def split: option.splits sum.splits prod.splits)
  have 5: "importLanguageVariant ?svc = importLanguageVariant svc"
    by (intro ext) (simp add: importLanguageVariant_def then_catch_skip Let_def split: option.splits sum.splits prod.splits)
  have 6: "importAsset ?svc = importAsset svc"
    by (intro ext) (simp add: importAsset_def then_catch_skip Let_def split: option.splits sum.splits prod.splits)
  have skip: "importItemAsync svc h (LanguageItem l) bfs cur = (Inr [], [], LanguageItem l)"
    using assms by (simp add: skips_languages_def)
  have other: "importItemAsync svc h item bfs cur = importItemAsync ?svc h item bfs cur"
    if "item_type item \<noteq> ''language''"
    using that
    by (cases item)
      (simp_all add: importContentTypesAsync_def importTaxonomiesAsync_def
        importContentTypeSnippetsAsync_def importContentItemAsync_def
        importLanguageVariantsAsync_def importAssetsAsync_def variants_loop_single
        1 2 3 4 5 6 split: prod.splits sum.splits)
  from skip other show ?thesis by blast
qed

text \<open>
  C10 on the example language and the example taxonomy.
\<close>

theorem importItemAsync_skip_languages_witness:
  "importItemAsync example_skipping_service [] (LanguageItem example_language) [] []
     = (Inr [], [], LanguageItem example_language)
   \<and> importItemAsync example_skipping_service [] (TaxonomyItem example_taxonomy) [] []
     = importItemAsync example_service [] (TaxonomyItem example_taxonomy) [] []"
  using importItemAsync_skip_languages
      [where svc = example_skipping_service and sk = "\<lparr>skip_languages = Some True\<rparr>"
         and h = "[]" and l = example_language and bfs = "[]" and cur = "[]"
         and item = "TaxonomyItem example_taxonomy" and s = None]
  by (simp add: example_defs)

end
